theory Spec2Isabelle
  imports Main "HOL-Library.Word"
begin

section \<open>Data model of the session facade (sftp.go)\<close>

text \<open>
  Go errors are values carrying a message; \<open>nil\<close> is \<open>None\<close> of \<open>error option\<close>.
\<close>

datatype error = Error string

text \<open>
  The ways the facade can abort: a method invoked through a nil pointer to a library
  struct, an index out of range, a failed unchecked type assertion, an explicit
  \<open>panic(e)\<close>, and a panic raised inside \<open>io.Copy\<close>.
\<close>

datatype panic = NilDereference | IndexOutOfRange | TypeAssertion | PanicError error | CopyPanic

datatype 'a outcome = Return 'a | Panic panic

text \<open>
  Handles to library objects are identifiers; a nil pointer is \<open>None\<close>.
  A stream is what \<open>download\<close> and \<open>upload\<close> hold in their interface variables:
  the stream of the caller, a \<open>*os.File\<close> or a \<open>*sftp.File\<close> (both possibly nil
  pointers wrapped in a non-nil interface).
\<close>

datatype stream = CallerStream nat | OsFile "nat option" | SftpFile "nat option"

text \<open>
  The value passed as \<open>local interface{}\<close>: a string, an object that implements
  \<open>io.WriteCloser\<close> (first flag) and/or \<open>io.ReadCloser\<close> (second flag), or any other
  value (an integer, a nil interface).
\<close>

datatype dynval = StringValue string | Object nat bool bool | OtherValue

datatype auth = PublicKeys nat | Password string

text \<open>
  \<open>ssh.ClientConfig\<close>, restricted to the fields the facade sets.
\<close>

record clientConfig =
  User :: string
  Auth :: "auth list"
  HostKeyCallback :: "string \<Rightarrow> string \<Rightarrow> string \<Rightarrow> error option"

text \<open>
  The arguments of the host-key callback are the host name, the remote address and the
  public key presented by the server, each in its textual form.
\<close>

text \<open>
  Every call the facade makes into the libraries, with its arguments, in the order made.
  \<open>SftpSymlink c oldname newname\<close> is \<open>Client.Symlink(oldname, newname)\<close> of the
  file-transfer library, which creates \<open>newname\<close> as a symbolic link to \<open>oldname\<close>.
\<close>

datatype call =
    ReadFile string
  | ParsePrivateKey string
  | ParsePrivateKeyWithPassphrase string string
  | LookupIP string
  | Dial string string clientConfig
  | NewClient nat
  | SshClose nat
  | SftpClose nat
  | NewSession nat
  | SessionOutput nat string
  | SessionClose nat
  | OsCreate string
  | OsOpen string
  | SftpOpen nat string
  | SftpCreate nat string
  | IoCopy stream stream
  | StreamClose stream
  | SftpMkdir nat string
  | SftpRemove nat string
  | SftpRename nat string string
  | SftpSymlink nat string string

type_synonym trace = "call list"

datatype copy_result = Copied "64 word" "error option" | CopyPanics

text \<open>
  The libraries and the operating system are a parameter: each call answers from its
  arguments and from the calls made before it. A call that fails answers with an error and
  no handle (the libraries return a nil handle beside a non-nil error).
\<close>

record lib =
  lib_ReadFile :: "trace \<Rightarrow> string \<Rightarrow> error + string"
  lib_ParsePrivateKey :: "trace \<Rightarrow> string \<Rightarrow> error + nat"
  lib_ParsePrivateKeyWithPassphrase :: "trace \<Rightarrow> string \<Rightarrow> string \<Rightarrow> error + nat"
  lib_LookupIP :: "trace \<Rightarrow> string \<Rightarrow> error + string list"
  lib_Dial :: "trace \<Rightarrow> string \<Rightarrow> string \<Rightarrow> clientConfig \<Rightarrow> error + nat"
  lib_NewClient :: "trace \<Rightarrow> nat \<Rightarrow> error + nat"
  lib_SshClose :: "trace \<Rightarrow> nat \<Rightarrow> error option"
  lib_SftpClose :: "trace \<Rightarrow> nat \<Rightarrow> error option"
  lib_NewSession :: "trace \<Rightarrow> nat \<Rightarrow> error + nat"
  lib_SessionOutput :: "trace \<Rightarrow> nat \<Rightarrow> string \<Rightarrow> string \<times> error option"
  lib_OsCreate :: "trace \<Rightarrow> string \<Rightarrow> error + nat"
  lib_OsOpen :: "trace \<Rightarrow> string \<Rightarrow> error + nat"
  lib_SftpOpen :: "trace \<Rightarrow> nat \<Rightarrow> string \<Rightarrow> error + nat"
  lib_SftpCreate :: "trace \<Rightarrow> nat \<Rightarrow> string \<Rightarrow> error + nat"
  lib_IoCopy :: "trace \<Rightarrow> stream \<Rightarrow> stream \<Rightarrow> copy_result"
  lib_SftpMkdir :: "trace \<Rightarrow> nat \<Rightarrow> string \<Rightarrow> error option"
  lib_SftpRemove :: "trace \<Rightarrow> nat \<Rightarrow> string \<Rightarrow> error option"
  lib_SftpRename :: "trace \<Rightarrow> nat \<Rightarrow> string \<Rightarrow> string \<Rightarrow> error option"
  lib_SftpSymlink :: "trace \<Rightarrow> nat \<Rightarrow> string \<Rightarrow> string \<Rightarrow> error option"

text \<open>
  The connection parameters read by \<open>connect\<close> (their declaration is in another file of
  the package; these are the fields sftp.go uses).
\<close>

record sftpParameters =
  user :: string
  useKey :: bool
  privateKey :: string
  usePassphrase :: bool
  passphrase :: string
  pass :: string
  host :: string
  port :: int

record SecureFtp =
  sshClient :: "nat option"
  sftpClient :: "nat option"
  params :: sftpParameters
  state :: int

definition newSftp :: "sftpParameters \<Rightarrow> SecureFtp" where
  "newSftp p = \<lparr>sshClient = None, sftpClient = None, params = p, state = 0\<rparr>"

section \<open>quit\<close>

text \<open>
  No function of the facade tests a handle for nil. A method called through a nil
  \<open>*sftp.Client\<close> or a nil \<open>*ssh.Client\<close> dereferences the pointer and panics before
  the library does anything; \<open>quit\<close> leaves the two fields of the facade as they are.
\<close>

definition quit :: "lib \<Rightarrow> SecureFtp \<Rightarrow> trace \<Rightarrow> error option outcome \<times> trace" where
  "quit l this h =
    (case sftpClient this of
       None \<Rightarrow> (Panic NilDereference, h)
     | Some c \<Rightarrow>
        (case lib_SftpClose l h c of
           Some err \<Rightarrow> (Return (Some err), h @ [SftpClose c])
         | None \<Rightarrow>
            (case sshClient this of
               None \<Rightarrow> (Panic NilDereference, h @ [SftpClose c])
             | Some t \<Rightarrow>
                (Return (lib_SshClose l (h @ [SftpClose c]) t),
                 h @ [SftpClose c, SshClose t]))))"

section \<open>The four mutation operations\<close>

text \<open>
  What follows a failed library call in \<open>mkdir\<close>, \<open>remove\<close>, \<open>rename\<close> and \<open>symlink\<close>:
  \<open>if e := this.quit(); e != nil { panic(e) }\<close>, then \<open>return\<close> with the first error.
\<close>

definition quit_or_panic :: "lib \<Rightarrow> SecureFtp \<Rightarrow> trace \<Rightarrow> error \<Rightarrow> error option outcome \<times> trace" where
  "quit_or_panic l this h err =
    (case quit l this h of
       (Return (Some e), h') \<Rightarrow> (Panic (PanicError e), h')
     | (Return None, h') \<Rightarrow> (Return (Some err), h')
     | (Panic q, h') \<Rightarrow> (Panic q, h'))"

definition mkdir :: "lib \<Rightarrow> SecureFtp \<Rightarrow> trace \<Rightarrow> string \<Rightarrow> error option outcome \<times> trace" where
  "mkdir l this h p =
    (case sftpClient this of
       None \<Rightarrow> (Panic NilDereference, h)
     | Some c \<Rightarrow>
        (case lib_SftpMkdir l h c p of
           None \<Rightarrow> (Return None, h @ [SftpMkdir c p])
         | Some err \<Rightarrow> quit_or_panic l this (h @ [SftpMkdir c p]) err))"

definition remove :: "lib \<Rightarrow> SecureFtp \<Rightarrow> trace \<Rightarrow> string \<Rightarrow> error option outcome \<times> trace" where
  "remove l this h p =
    (case sftpClient this of
       None \<Rightarrow> (Panic NilDereference, h)
     | Some c \<Rightarrow>
        (case lib_SftpRemove l h c p of
           None \<Rightarrow> (Return None, h @ [SftpRemove c p])
         | Some err \<Rightarrow> quit_or_panic l this (h @ [SftpRemove c p]) err))"

definition rename :: "lib \<Rightarrow> SecureFtp \<Rightarrow> trace \<Rightarrow> string \<Rightarrow> string \<Rightarrow> error option outcome \<times> trace" where
  "rename l this h old new =
    (case sftpClient this of
       None \<Rightarrow> (Panic NilDereference, h)
     | Some c \<Rightarrow>
        (case lib_SftpRename l h c old new of
           None \<Rightarrow> (Return None, h @ [SftpRename c old new])
         | Some err \<Rightarrow> quit_or_panic l this (h @ [SftpRename c old new]) err))"

text \<open>
  \<open>symlink(dest, src)\<close> calls \<open>this.sftpClient.Symlink(src, dest)\<close>.
\<close>

definition symlink :: "lib \<Rightarrow> SecureFtp \<Rightarrow> trace \<Rightarrow> string \<Rightarrow> string \<Rightarrow> error option outcome \<times> trace" where
  "symlink l this h dest src =
    (case sftpClient this of
       None \<Rightarrow> (Panic NilDereference, h)
     | Some c \<Rightarrow>
        (case lib_SftpSymlink l h c src dest of
           None \<Rightarrow> (Return None, h @ [SftpSymlink c src dest])
         | Some err \<Rightarrow> quit_or_panic l this (h @ [SftpSymlink c src dest]) err))"

section \<open>Deferred calls\<close>

text \<open>
  A deferred \<open>Close\<close> runs when the function leaves, by return or by panic, and its result
  is discarded. \<open>Close\<close> through a nil \<open>*sftp.File\<close> or a nil \<open>*ssh.Session\<close>
  dereferences the pointer and panics; \<open>Close\<close> on a nil \<open>*os.File\<close> answers with an
  error, which is discarded like any other.
\<close>

definition close_stream :: "stream \<Rightarrow> 'a outcome \<times> trace \<Rightarrow> 'a outcome \<times> trace" where
  "close_stream s r =
    (case s of
       SftpFile None \<Rightarrow> (Panic NilDereference, snd r)
     | _ \<Rightarrow> (fst r, snd r @ [StreamClose s]))"

definition close_session :: "nat option \<Rightarrow> 'a outcome \<times> trace \<Rightarrow> 'a outcome \<times> trace" where
  "close_session s r =
    (case s of
       None \<Rightarrow> (Panic NilDereference, snd r)
     | Some x \<Rightarrow> (fst r, snd r @ [SessionClose x]))"

section \<open>list\<close>

text \<open>
  Lines 92 to 100: the command is run on the session, which is nil when \<open>NewSession\<close>
  failed and the teardown succeeded.
\<close>

definition list_output :: "lib \<Rightarrow> SecureFtp \<Rightarrow> trace \<Rightarrow> nat option \<Rightarrow> string
    \<Rightarrow> (string \<times> error option) outcome \<times> trace" where
  "list_output l this h session p =
    (case session of
       None \<Rightarrow> (Panic NilDereference, h)
     | Some x \<Rightarrow>
        (case lib_SessionOutput l h x (''ls -al '' @ p) of
           (bytes, None) \<Rightarrow> (Return (bytes, None), h @ [SessionOutput x (''ls -al '' @ p)])
         | (bytes, Some err) \<Rightarrow>
            (case quit l this (h @ [SessionOutput x (''ls -al '' @ p)]) of
               (Return (Some e), h') \<Rightarrow> (Return ('''', Some e), h')
             | (Return None, h') \<Rightarrow> (Return (bytes, Some err), h')
             | (Panic q, h') \<Rightarrow> (Panic q, h'))))"

definition list :: "lib \<Rightarrow> SecureFtp \<Rightarrow> trace \<Rightarrow> string
    \<Rightarrow> (string \<times> error option) outcome \<times> trace" where
  "list l this h p =
    (case sshClient this of
       None \<Rightarrow> (Panic NilDereference, h)
     | Some t \<Rightarrow>
        (case lib_NewSession l h t of
           Inr x \<Rightarrow> close_session (Some x) (list_output l this (h @ [NewSession t]) (Some x) p)
         | Inl err \<Rightarrow>
            (case quit l this (h @ [NewSession t]) of
               (Return (Some e), h') \<Rightarrow> (Return ('''', Some e), h')
             | (Return None, h') \<Rightarrow> close_session None (list_output l this h' None p)
             | (Panic q, h') \<Rightarrow> (Panic q, h'))))"

section \<open>download and upload\<close>

text \<open>
  \<open>len, err = io.Copy(w, r)\<close> and the handling of its error: lines 121 to 126 of
  \<open>download\<close> and 147 to 153 of \<open>upload\<close>, which are the same.
\<close>

definition copy_streams :: "lib \<Rightarrow> SecureFtp \<Rightarrow> trace \<Rightarrow> stream \<Rightarrow> stream
    \<Rightarrow> (64 word \<times> error option) outcome \<times> trace" where
  "copy_streams l this h w r =
    (case lib_IoCopy l h w r of
       CopyPanics \<Rightarrow> (Panic CopyPanic, h @ [IoCopy w r])
     | Copied n None \<Rightarrow> (Return (n, None), h @ [IoCopy w r])
     | Copied n (Some err) \<Rightarrow>
        (case quit l this (h @ [IoCopy w r]) of
           (Return (Some e), h') \<Rightarrow> (Return (0, Some e), h')
         | (Return None, h') \<Rightarrow> (Return (n, Some err), h')
         | (Panic q, h') \<Rightarrow> (Panic q, h')))"

text \<open>
  Lines 115 to 126 of \<open>download\<close>: the remote file is opened, its \<open>Close\<close> is deferred,
  and the bytes are copied.
\<close>

definition download_remote :: "lib \<Rightarrow> SecureFtp \<Rightarrow> trace \<Rightarrow> stream \<Rightarrow> string
    \<Rightarrow> (64 word \<times> error option) outcome \<times> trace" where
  "download_remote l this h w remote =
    (case sftpClient this of
       None \<Rightarrow> (Panic NilDereference, h)
     | Some c \<Rightarrow>
        (case lib_SftpOpen l h c remote of
           Inr f \<Rightarrow>
            close_stream (SftpFile (Some f))
              (copy_streams l this (h @ [SftpOpen c remote]) w (SftpFile (Some f)))
         | Inl err \<Rightarrow>
            (case quit l this (h @ [SftpOpen c remote]) of
               (Return (Some e), h') \<Rightarrow> (Return (0, Some e), h')
             | (Return None, h') \<Rightarrow>
                close_stream (SftpFile None) (copy_streams l this h' w (SftpFile None))
             | (Panic q, h') \<Rightarrow> (Panic q, h'))))"

definition download :: "lib \<Rightarrow> SecureFtp \<Rightarrow> trace \<Rightarrow> dynval \<Rightarrow> string
    \<Rightarrow> (64 word \<times> error option) outcome \<times> trace" where
  "download l this h local remote =
    (case local of
       Object n True rc \<Rightarrow>
        close_stream (CallerStream n) (download_remote l this h (CallerStream n) remote)
     | Object n False rc \<Rightarrow> (Panic TypeAssertion, h)
     | OtherValue \<Rightarrow> (Panic TypeAssertion, h)
     | StringValue path \<Rightarrow>
        (case lib_OsCreate l h path of
           Inr f \<Rightarrow>
            close_stream (OsFile (Some f))
              (download_remote l this (h @ [OsCreate path]) (OsFile (Some f)) remote)
         | Inl err \<Rightarrow>
            (case quit l this (h @ [OsCreate path]) of
               (Return (Some e), h') \<Rightarrow> (Return (0, Some e), h')
             | (Return None, h') \<Rightarrow>
                close_stream (OsFile None) (download_remote l this h' (OsFile None) remote)
             | (Panic q, h') \<Rightarrow> (Panic q, h'))))"

text \<open>
  Lines 140 to 153 of \<open>upload\<close>: the remote file is created, its \<open>Close\<close> is deferred,
  and the bytes are copied.
\<close>

definition upload_remote :: "lib \<Rightarrow> SecureFtp \<Rightarrow> trace \<Rightarrow> stream \<Rightarrow> string
    \<Rightarrow> (64 word \<times> error option) outcome \<times> trace" where
  "upload_remote l this h r remote =
    (case sftpClient this of
       None \<Rightarrow> (Panic NilDereference, h)
     | Some c \<Rightarrow>
        (case lib_SftpCreate l h c remote of
           Inr f \<Rightarrow>
            close_stream (SftpFile (Some f))
              (copy_streams l this (h @ [SftpCreate c remote]) (SftpFile (Some f)) r)
         | Inl err \<Rightarrow>
            (case quit l this (h @ [SftpCreate c remote]) of
               (Return (Some e), h') \<Rightarrow> (Return (0, Some e), h')
             | (Return None, h') \<Rightarrow>
                close_stream (SftpFile None) (copy_streams l this h' (SftpFile None) r)
             | (Panic q, h') \<Rightarrow> (Panic q, h'))))"

definition upload :: "lib \<Rightarrow> SecureFtp \<Rightarrow> trace \<Rightarrow> dynval \<Rightarrow> string
    \<Rightarrow> (64 word \<times> error option) outcome \<times> trace" where
  "upload l this h local remote =
    (case local of
       Object n wc True \<Rightarrow>
        close_stream (CallerStream n) (upload_remote l this h (CallerStream n) remote)
     | Object n wc False \<Rightarrow> (Panic TypeAssertion, h)
     | OtherValue \<Rightarrow> (Panic TypeAssertion, h)
     | StringValue path \<Rightarrow>
        (case lib_OsOpen l h path of
           Inr f \<Rightarrow>
            close_stream (OsFile (Some f))
              (upload_remote l this (h @ [OsOpen path]) (OsFile (Some f)) remote)
         | Inl err \<Rightarrow>
            (case quit l this (h @ [OsOpen path]) of
               (Return (Some e), h') \<Rightarrow> (Return (0, Some e), h')
             | (Return None, h') \<Rightarrow>
                close_stream (OsFile None) (upload_remote l this h' (OsFile None) remote)
             | (Panic q, h') \<Rightarrow> (Panic q, h'))))"

section \<open>connect\<close>

text \<open>
  \<open>strings.HasPrefix\<close> and \<open>strings.TrimPrefix\<close>.
\<close>

definition HasPrefix :: "string \<Rightarrow> string \<Rightarrow> bool" where
  "HasPrefix s pre = (length pre \<le> length s \<and> take (length pre) s = pre)"

definition TrimPrefix :: "string \<Rightarrow> string \<Rightarrow> string" where
  "TrimPrefix s pre = (if HasPrefix s pre then drop (length pre) s else s)"

text \<open>
  The verb \<open>%d\<close> of \<open>fmt\<close>: an integer in decimal.
\<close>

fun decimal :: "nat \<Rightarrow> string" where
  "decimal n =
    (if n < 10 then [''0123456789'' ! n]
     else decimal (n div 10) @ [''0123456789'' ! (n mod 10)])"

definition format_int :: "int \<Rightarrow> string" where
  "format_int i = (if i < 0 then ''-'' @ decimal (nat (- i)) else decimal (nat i))"

text \<open>
  \<open>fmt.Errorf(`Private Key File "%v": %v`, privateKey, err)\<close>.
\<close>

definition key_file_error :: "string \<Rightarrow> error \<Rightarrow> error" where
  "key_file_error path err =
    (case err of
       Error msg \<Rightarrow> Error (''Private Key File '' @ [CHR 0x22] @ path @ [CHR 0x22] @ '': '' @ msg))"

text \<open>
  Lines 31 to 36: the configuration starts with the user and a host-key callback that
  returns nil.
\<close>

definition initial_config :: "sftpParameters \<Rightarrow> clientConfig" where
  "initial_config p =
    \<lparr>User = user p, Auth = [], HostKeyCallback = (\<lambda>hostname remote key. None)\<rparr>"

text \<open>
  Lines 41 to 49: the key bytes are the content of a local file when the configured key
  begins with \<open>FILEPROTOCOL\<close>, and the configured key itself otherwise. The prefix
  \<open>FILEPROTOCOL\<close> is a constant of the package declared in another file, hence a
  parameter.
\<close>

definition read_key :: "string \<Rightarrow> lib \<Rightarrow> sftpParameters \<Rightarrow> trace \<Rightarrow> (error + string) \<times> trace" where
  "read_key FILEPROTOCOL l p h =
    (if HasPrefix (privateKey p) FILEPROTOCOL then
       (case lib_ReadFile l h (TrimPrefix (privateKey p) FILEPROTOCOL) of
          Inl err \<Rightarrow>
            (Inl (key_file_error (TrimPrefix (privateKey p) FILEPROTOCOL) err),
             h @ [ReadFile (TrimPrefix (privateKey p) FILEPROTOCOL)])
        | Inr bytes \<Rightarrow> (Inr bytes, h @ [ReadFile (TrimPrefix (privateKey p) FILEPROTOCOL)]))
     else (Inr (privateKey p), h))"

text \<open>
  Lines 50 to 59: the key is parsed, with the passphrase when \<open>usePassphrase\<close> is set,
  and the signer is appended to the authentication methods.
\<close>

definition parse_key :: "lib \<Rightarrow> sftpParameters \<Rightarrow> clientConfig \<Rightarrow> string \<Rightarrow> trace
    \<Rightarrow> (error + clientConfig) \<times> trace" where
  "parse_key l p config pemBytes h =
    (if usePassphrase p then
       (case lib_ParsePrivateKeyWithPassphrase l h pemBytes (passphrase p) of
          Inl err \<Rightarrow> (Inl err, h @ [ParsePrivateKeyWithPassphrase pemBytes (passphrase p)])
        | Inr signer \<Rightarrow>
            (Inr (config\<lparr>Auth := Auth config @ [PublicKeys signer]\<rparr>),
             h @ [ParsePrivateKeyWithPassphrase pemBytes (passphrase p)]))
     else
       (case lib_ParsePrivateKey l h pemBytes of
          Inl err \<Rightarrow> (Inl err, h @ [ParsePrivateKey pemBytes])
        | Inr signer \<Rightarrow>
            (Inr (config\<lparr>Auth := Auth config @ [PublicKeys signer]\<rparr>),
             h @ [ParsePrivateKey pemBytes])))"

text \<open>
  Lines 38 to 60: key authentication, when enabled.
\<close>

definition key_auth :: "string \<Rightarrow> lib \<Rightarrow> sftpParameters \<Rightarrow> clientConfig \<Rightarrow> trace
    \<Rightarrow> (error + clientConfig) \<times> trace" where
  "key_auth FILEPROTOCOL l p config h =
    (if useKey p then
       (case read_key FILEPROTOCOL l p h of
          (Inl err, h1) \<Rightarrow> (Inl err, h1)
        | (Inr pemBytes, h1) \<Rightarrow> parse_key l p config pemBytes h1)
     else (Inr config, h))"

text \<open>
  Lines 62 to 64.
\<close>

definition password_auth :: "sftpParameters \<Rightarrow> clientConfig \<Rightarrow> clientConfig" where
  "password_auth p config =
    (if length (pass p) > 0 then config\<lparr>Auth := Auth config @ [Password (pass p)]\<rparr> else config)"

text \<open>
  Lines 66 to 80: name resolution, the dial and the file-transfer client. The two handles
  are assigned whatever the library returns, nil beside an error.
  \<open>config.SetDefaults()\<close> changes none of the fields modelled.
\<close>

definition dial :: "lib \<Rightarrow> SecureFtp \<Rightarrow> clientConfig \<Rightarrow> trace
    \<Rightarrow> error option outcome \<times> SecureFtp \<times> trace" where
  "dial l this config h =
    (case lib_LookupIP l h (host (params this)) of
       Inl err \<Rightarrow> (Return (Some err), this, h @ [LookupIP (host (params this))])
     | Inr [] \<Rightarrow> (Panic IndexOutOfRange, this, h @ [LookupIP (host (params this))])
     | Inr (ip0 # ips) \<Rightarrow>
        (let addr = ip0 @ '':'' @ format_int (port (params this));
             h1 = h @ [LookupIP (host (params this))] in
         (case lib_Dial l h1 ''tcp'' addr config of
            Inl err \<Rightarrow>
              (Return (Some err), this\<lparr>sshClient := None\<rparr>, h1 @ [Dial ''tcp'' addr config])
          | Inr t \<Rightarrow>
             (let h2 = h1 @ [Dial ''tcp'' addr config] in
              (case lib_NewClient l h2 t of
                 Inr c \<Rightarrow>
                   (Return None, this\<lparr>sshClient := Some t, sftpClient := Some c\<rparr>,
                    h2 @ [NewClient t])
               | Inl err \<Rightarrow>
                  (case lib_SshClose l (h2 @ [NewClient t]) t of
                     Some e \<Rightarrow>
                       (Return (Some e), this\<lparr>sshClient := Some t, sftpClient := None\<rparr>,
                        h2 @ [NewClient t, SshClose t])
                   | None \<Rightarrow>
                       (Return (Some err), this\<lparr>sshClient := Some t, sftpClient := None\<rparr>,
                        h2 @ [NewClient t, SshClose t])))))))"

definition connect :: "string \<Rightarrow> lib \<Rightarrow> SecureFtp \<Rightarrow> trace
    \<Rightarrow> error option outcome \<times> SecureFtp \<times> trace" where
  "connect FILEPROTOCOL l this h =
    (case key_auth FILEPROTOCOL l (params this) (initial_config (params this)) h of
       (Inl err, h1) \<Rightarrow> (Return (Some err), this, h1)
     | (Inr config, h1) \<Rightarrow> dial l this (password_auth (params this) config) h1)"

section \<open>What a call does to the remote file system\<close>

text \<open>
  The path at which a call creates a symbolic link, and the path the link points to.
\<close>

fun link_at :: "call \<Rightarrow> string option" where
  "link_at (SftpSymlink c oldname newname) = Some newname"
| "link_at _ = None"

fun link_to :: "call \<Rightarrow> string option" where
  "link_to (SftpSymlink c oldname newname) = Some oldname"
| "link_to _ = None"

text \<open>
  The dynamic type tests of \<open>download\<close> and \<open>upload\<close> on their \<open>local\<close> argument.
\<close>

fun is_WriteCloser :: "dynval \<Rightarrow> bool" where
  "is_WriteCloser (Object n wc rc) = wc"
| "is_WriteCloser _ = False"

fun is_ReadCloser :: "dynval \<Rightarrow> bool" where
  "is_ReadCloser (Object n wc rc) = rc"
| "is_ReadCloser _ = False"

fun is_string :: "dynval \<Rightarrow> bool" where
  "is_string (StringValue s) = True"
| "is_string _ = False"

section \<open>Sample environments\<close>

text \<open>
  A server that is reachable and on which every call succeeds: the transport is handle 1,
  the file-transfer client handle 2.
\<close>

definition friendly :: lib where
  "friendly =
    \<lparr>lib_ReadFile = (\<lambda>h path. Inr ''PEM''),
     lib_ParsePrivateKey = (\<lambda>h pem. Inr 8),
     lib_ParsePrivateKeyWithPassphrase = (\<lambda>h pem phrase. Inr 9),
     lib_LookupIP = (\<lambda>h name. Inr [''10.0.0.7'']),
     lib_Dial = (\<lambda>h network addr config. Inr 1),
     lib_NewClient = (\<lambda>h t. Inr 2),
     lib_SshClose = (\<lambda>h t. None),
     lib_SftpClose = (\<lambda>h c. None),
     lib_NewSession = (\<lambda>h t. Inr 3),
     lib_SessionOutput = (\<lambda>h x cmd. (''total 0'', None)),
     lib_OsCreate = (\<lambda>h path. Inr 4),
     lib_OsOpen = (\<lambda>h path. Inr 5),
     lib_SftpOpen = (\<lambda>h c path. Inr 6),
     lib_SftpCreate = (\<lambda>h c path. Inr 7),
     lib_IoCopy = (\<lambda>h w r. Copied 42 None),
     lib_SftpMkdir = (\<lambda>h c path. None),
     lib_SftpRemove = (\<lambda>h c path. None),
     lib_SftpRename = (\<lambda>h c old new. None),
     lib_SftpSymlink = (\<lambda>h c oldname newname. None)\<rparr>"

text \<open>
  The same server without the remote file asked for: opening it fails, and a copy from or
  to a nil remote file panics on the nil pointer.
\<close>

definition missing_file :: lib where
  "missing_file =
    friendly
      \<lparr>lib_SftpOpen := (\<lambda>h c path. Inl (Error ''file does not exist'')),
       lib_IoCopy := (\<lambda>h w r. if r = SftpFile None \<or> w = SftpFile None then CopyPanics
                                else Copied 42 None)\<rparr>"

text \<open>
  A host whose name does not resolve.
\<close>

definition unknown_host :: lib where
  "unknown_host = friendly\<lparr>lib_LookupIP := (\<lambda>h name. Inl (Error ''no such host''))\<rparr>"

definition sample_params :: sftpParameters where
  "sample_params =
    \<lparr>user = ''alice'', useKey = False, privateKey = [], usePassphrase = False,
     passphrase = [], pass = ''secret'', host = ''files.example.org'', port = 22\<rparr>"

definition connected :: SecureFtp where
  "connected = \<lparr>sshClient = Some 1, sftpClient = Some 2, params = sample_params, state = 0\<rparr>"

section \<open>Properties of quit and of the mutation operations\<close>

lemma quit_trace:
  "\<exists>ev. snd (quit l this h) = h @ ev \<and> (\<forall>x\<in>set ev. \<exists>n. x = SftpClose n \<or> x = SshClose n)"
  by (auto simp: quit_def split: option.splits)

lemma quit_or_panic_trace:
  "\<exists>ev. snd (quit_or_panic l this h err) = h @ ev \<and> (\<forall>x\<in>set ev. link_at x = None)"
proof -
  obtain ev where ev: "snd (quit l this h) = h @ ev"
    and cl: "\<forall>x\<in>set ev. \<exists>n. x = SftpClose n \<or> x = SshClose n"
    using quit_trace by blast
  have "\<forall>x\<in>set ev. link_at x = None" using cl by fastforce
  moreover have "snd (quit_or_panic l this h err) = h @ ev"
    using ev by (auto simp: quit_or_panic_def split: prod.splits outcome.splits option.splits)
  ultimately show ?thesis by blast
qed

text \<open>
  Claim C4. With both handles set, \<open>quit\<close> closes the file-transfer client first and the
  transport second and returns the first error: when closing the file-transfer client
  fails, that error is returned, the only call made is that close, and the transport is
  not closed; when it succeeds, the transport is closed next and the result of that close
  is returned.
\<close>

theorem quit_closes_subprotocol_then_transport:
  "sftpClient this = Some c \<Longrightarrow> sshClient this = Some t \<Longrightarrow>
     (lib_SftpClose l h c = Some e \<longrightarrow>
        quit l this h = (Return (Some e), h @ [SftpClose c]) \<and>
        SshClose t \<notin> set (drop (length h) (snd (quit l this h))))
   \<and> (lib_SftpClose l h c = None \<longrightarrow>
        quit l this h =
          (Return (lib_SshClose l (h @ [SftpClose c]) t), h @ [SftpClose c, SshClose t]))"
  by (simp add: quit_def)

theorem quit_closes_subprotocol_then_transport_witness:
  "quit (friendly\<lparr>lib_SftpClose := (\<lambda>h c. Some (Error ''broken pipe''))\<rparr>) connected []
     = (Return (Some (Error ''broken pipe'')), [SftpClose 2])
   \<and> quit (friendly\<lparr>lib_SshClose := (\<lambda>h c. Some (Error ''reset''))\<rparr>) connected []
     = (Return (Some (Error ''reset'')), [SftpClose 2, SshClose 1])"
  using quit_closes_subprotocol_then_transport
          [of connected 2 1 "friendly\<lparr>lib_SftpClose := (\<lambda>h c. Some (Error ''broken pipe''))\<rparr>"
              "[]" "Error ''broken pipe''"]
        quit_closes_subprotocol_then_transport
          [of connected 2 1 "friendly\<lparr>lib_SshClose := (\<lambda>h c. Some (Error ''reset''))\<rparr>"
              "[]" "Error ''reset''"]
  by (simp add: connected_def friendly_def)

text \<open>
  Claim C3. In \<open>mkdir\<close>, \<open>remove\<close>, \<open>rename\<close> and \<open>symlink\<close>, when the library call
  fails and the teardown by \<open>quit\<close> returns an error, the operation panics with that
  teardown error and returns nothing; when the teardown returns no error, the operation
  returns the error of the library call.
\<close>

theorem mutation_teardown_failure_panics:
  assumes "sftpClient this = Some c"
  shows "(lib_SftpMkdir l h c p = Some err \<longrightarrow>
           (\<forall>e h'. quit l this (h @ [SftpMkdir c p]) = (Return (Some e), h') \<longrightarrow>
                mkdir l this h p = (Panic (PanicError e), h')) \<and>
           (\<forall>h'. quit l this (h @ [SftpMkdir c p]) = (Return None, h') \<longrightarrow>
                mkdir l this h p = (Return (Some err), h')))
       \<and> (lib_SftpRemove l h c p = Some err \<longrightarrow>
           (\<forall>e h'. quit l this (h @ [SftpRemove c p]) = (Return (Some e), h') \<longrightarrow>
                remove l this h p = (Panic (PanicError e), h')) \<and>
           (\<forall>h'. quit l this (h @ [SftpRemove c p]) = (Return None, h') \<longrightarrow>
                remove l this h p = (Return (Some err), h')))
       \<and> (lib_SftpRename l h c p q = Some err \<longrightarrow>
           (\<forall>e h'. quit l this (h @ [SftpRename c p q]) = (Return (Some e), h') \<longrightarrow>
                rename l this h p q = (Panic (PanicError e), h')) \<and>
           (\<forall>h'. quit l this (h @ [SftpRename c p q]) = (Return None, h') \<longrightarrow>
                rename l this h p q = (Return (Some err), h')))
       \<and> (lib_SftpSymlink l h c q p = Some err \<longrightarrow>
           (\<forall>e h'. quit l this (h @ [SftpSymlink c q p]) = (Return (Some e), h') \<longrightarrow>
                symlink l this h p q = (Panic (PanicError e), h')) \<and>
           (\<forall>h'. quit l this (h @ [SftpSymlink c q p]) = (Return None, h') \<longrightarrow>
                symlink l this h p q = (Return (Some err), h')))"
  using assms by (simp add: mkdir_def remove_def rename_def symlink_def quit_or_panic_def)

theorem mutation_teardown_failure_panics_witness:
  "mkdir (friendly\<lparr>lib_SftpMkdir := (\<lambda>h c p. Some (Error ''exists'')),
                    lib_SftpClose := (\<lambda>h c. Some (Error ''broken pipe''))\<rparr>) connected [] ''/d''
     = (Panic (PanicError (Error ''broken pipe'')), [SftpMkdir 2 ''/d'', SftpClose 2])
   \<and> symlink (friendly\<lparr>lib_SftpSymlink := (\<lambda>h c p q. Some (Error ''exists''))\<rparr>)
        connected [] ''/a'' ''/b''
     = (Return (Some (Error ''exists'')), [SftpSymlink 2 ''/b'' ''/a'', SftpClose 2, SshClose 1])"
  using mutation_teardown_failure_panics
          [of connected 2 "friendly\<lparr>lib_SftpMkdir := (\<lambda>h c p. Some (Error ''exists'')),
                    lib_SftpClose := (\<lambda>h c. Some (Error ''broken pipe''))\<rparr>"
              "[]" "''/d''" "Error ''exists''"]
        mutation_teardown_failure_panics
          [of connected 2 "friendly\<lparr>lib_SftpSymlink := (\<lambda>h c p q. Some (Error ''exists''))\<rparr>"
              "[]" "''/a''" "Error ''exists''" "''/b''"]
  by (simp add: connected_def friendly_def quit_def)

text \<open>
  Claim C6, as stated, fails: called with a target path first and a link path second,
  \<open>symlink\<close> does not create the link at its second argument, nor does the link point to
  its first argument.
\<close>

theorem symlink_argument_order_counterexample:
  "map link_at (snd (symlink friendly connected [] ''/target'' ''/link'')) \<noteq> [Some ''/link'']
   \<and> map link_to (snd (symlink friendly connected [] ''/target'' ''/link'')) \<noteq> [Some ''/target'']"
  by (simp add: symlink_def connected_def friendly_def)

text \<open>
  Claim C6, amended. \<open>symlink(dest, src)\<close> on a facade whose file-transfer client is set
  makes a single symlink call to the library, and that call creates the link at \<open>dest\<close>,
  the first argument, pointing to \<open>src\<close>, the second argument; the calls after it (the
  teardown, when the call failed) create no link.
\<close>

theorem symlink_single_call:
  assumes "sftpClient this = Some c"
  shows "\<exists>ev. snd (symlink l this h dest src) = h @ [SftpSymlink c src dest] @ ev
           \<and> (\<forall>x\<in>set ev. link_at x = None)
           \<and> link_at (SftpSymlink c src dest) = Some dest
           \<and> link_to (SftpSymlink c src dest) = Some src"
proof (cases "lib_SftpSymlink l h c src dest")
  case None
  then show ?thesis using assms by (simp add: symlink_def)
next
  case (Some err)
  obtain ev
    where "snd (quit_or_panic l this (h @ [SftpSymlink c src dest]) err)
             = (h @ [SftpSymlink c src dest]) @ ev"
      and "\<forall>x\<in>set ev. link_at x = None"
    using quit_or_panic_trace by blast
  then show ?thesis using assms Some by (simp add: symlink_def)
qed

theorem symlink_single_call_witness:
  "\<exists>ev. snd (symlink friendly connected [] ''/link'' ''/target'')
            = [] @ [SftpSymlink 2 ''/target'' ''/link''] @ ev
       \<and> (\<forall>x\<in>set ev. link_at x = None)
       \<and> link_at (SftpSymlink 2 ''/target'' ''/link'') = Some ''/link''
       \<and> link_to (SftpSymlink 2 ''/target'' ''/link'') = Some ''/target''"
  using symlink_single_call [of connected 2 friendly "[]" "''/link''" "''/target''"]
  by (simp add: connected_def)

section \<open>Properties of download and upload\<close>

text \<open>
  Claim C10. When the \<open>local\<close> argument of \<open>download\<close> is neither an \<open>io.WriteCloser\<close>
  nor a string, and when the \<open>local\<close> argument of \<open>upload\<close> is neither an
  \<open>io.ReadCloser\<close> nor a string, the operation panics on the type assertion to string,
  before any call to the libraries, and returns no error value.
\<close>

theorem unchecked_type_assertion_panics:
  "(\<not> is_WriteCloser local \<and> \<not> is_string local \<longrightarrow>
      download l this h local remote = (Panic TypeAssertion, h))
   \<and> (\<not> is_ReadCloser local \<and> \<not> is_string local \<longrightarrow>
      upload l this h local remote = (Panic TypeAssertion, h))"
  by (cases local) (auto simp: download_def upload_def)

theorem unchecked_type_assertion_panics_witness:
  "download friendly connected [] OtherValue ''/r'' = (Panic TypeAssertion, [])
   \<and> upload friendly connected [] (Object 5 True False) ''/r'' = (Panic TypeAssertion, [])"
  using unchecked_type_assertion_panics [of OtherValue friendly connected "[]" "''/r''"]
        unchecked_type_assertion_panics [of "Object 5 True False" friendly connected "[]" "''/r''"]
  by simp

section \<open>Traces of download and upload\<close>

lemma copy_streams_trace:
  "\<exists>ev. snd (copy_streams l this h w r) = h @ ev \<and> (\<forall>x\<in>set ev. \<forall>s. x \<noteq> StreamClose s)"
proof -
  obtain ev where ev: "snd (quit l this (h @ [IoCopy w r])) = (h @ [IoCopy w r]) @ ev"
    and cl: "\<forall>x\<in>set ev. \<exists>n. x = SftpClose n \<or> x = SshClose n"
    using quit_trace by blast
  have nc: "\<forall>x\<in>set ([IoCopy w r] @ ev). \<forall>s. x \<noteq> StreamClose s" using cl by fastforce
  have "snd (copy_streams l this h w r) = h @ [IoCopy w r]
        \<or> snd (copy_streams l this h w r) = h @ [IoCopy w r] @ ev"
    using ev by (auto simp: copy_streams_def split: copy_result.splits option.splits prod.splits outcome.splits)
  then show ?thesis
  proof
    assume "snd (copy_streams l this h w r) = h @ [IoCopy w r]"
    then show ?thesis by auto
  next
    assume "snd (copy_streams l this h w r) = h @ [IoCopy w r] @ ev"
    then show ?thesis using nc by blast
  qed
qed

lemma close_remote_trace:
  assumes "snd r = h @ ev" and "\<forall>x\<in>set ev. x \<noteq> StreamClose (CallerStream n)"
  shows "\<exists>ev'. snd (close_stream (SftpFile f) r) = h @ ev'
            \<and> (\<forall>x\<in>set ev'. x \<noteq> StreamClose (CallerStream n))"
  using assms by (cases f) (auto simp: close_stream_def)

lemma download_remote_trace:
  "\<exists>ev. snd (download_remote l this h w remote) = h @ ev
        \<and> (\<forall>x\<in>set ev. x \<noteq> StreamClose (CallerStream n))"
proof (cases "sftpClient this")
  case None
  then show ?thesis by (simp add: download_remote_def)
next
  case (Some c)
  let ?h1 = "h @ [SftpOpen c remote]"
  show ?thesis
  proof (cases "lib_SftpOpen l h c remote")
    case (Inr f)
    obtain ev where "snd (copy_streams l this ?h1 w (SftpFile (Some f))) = ?h1 @ ev"
      and "\<forall>x\<in>set ev. \<forall>s. x \<noteq> StreamClose s"
      using copy_streams_trace by blast
    then have "snd (copy_streams l this ?h1 w (SftpFile (Some f))) = h @ ([SftpOpen c remote] @ ev)"
      and "\<forall>x\<in>set ([SftpOpen c remote] @ ev). x \<noteq> StreamClose (CallerStream n)"
      by auto
    from close_remote_trace [OF this] show ?thesis using Some Inr
      by (simp add: download_remote_def)
  next
    case (Inl err)
    obtain qv where qv: "snd (quit l this ?h1) = ?h1 @ qv"
      and cl: "\<forall>x\<in>set qv. \<exists>n. x = SftpClose n \<or> x = SshClose n"
      using quit_trace by blast
    have qn: "\<forall>x\<in>set ([SftpOpen c remote] @ qv). x \<noteq> StreamClose (CallerStream n)"
      using cl by fastforce
    obtain ev where cp: "snd (copy_streams l this (?h1 @ qv) w (SftpFile None)) = (?h1 @ qv) @ ev"
      and cn: "\<forall>x\<in>set ev. \<forall>s. x \<noteq> StreamClose s"
      using copy_streams_trace by blast
    have "snd (copy_streams l this (?h1 @ qv) w (SftpFile None)) = h @ ([SftpOpen c remote] @ qv @ ev)"
      and "\<forall>x\<in>set ([SftpOpen c remote] @ qv @ ev). x \<noteq> StreamClose (CallerStream n)"
      using cp cn qn by auto
    from close_remote_trace [OF this]
    obtain ev' where cs: "snd (close_stream (SftpFile None) (copy_streams l this (?h1 @ qv) w (SftpFile None))) = h @ ev'"
      and csn: "\<forall>x\<in>set ev'. x \<noteq> StreamClose (CallerStream n)" by blast
    show ?thesis
    proof (cases "quit l this ?h1")
      case (Pair out h')
      then have h': "h' = ?h1 @ qv" using qv by simp
      show ?thesis
      proof (cases out)
        case (Panic q)
        then show ?thesis using Some Inl Pair h' qn
          by (auto simp: download_remote_def)
      next
        case (Return eo)
        show ?thesis
        proof (cases eo)
          case None
          then show ?thesis using Some Inl Pair Return h' cs csn
            by (auto simp: download_remote_def)
        next
          case (Some e)
          then show ?thesis using \<open>sftpClient this = Some c\<close> Inl Pair Return h' qn
            by (auto simp: download_remote_def)
        qed
      qed
    qed
  qed
qed

lemma upload_remote_trace:
  "\<exists>ev. snd (upload_remote l this h w remote) = h @ ev
        \<and> (\<forall>x\<in>set ev. x \<noteq> StreamClose (CallerStream n))"
proof (cases "sftpClient this")
  case None
  then show ?thesis by (simp add: upload_remote_def)
next
  case (Some c)
  let ?h1 = "h @ [SftpCreate c remote]"
  show ?thesis
  proof (cases "lib_SftpCreate l h c remote")
    case (Inr f)
    obtain ev where "snd (copy_streams l this ?h1 (SftpFile (Some f)) w) = ?h1 @ ev"
      and "\<forall>x\<in>set ev. \<forall>s. x \<noteq> StreamClose s"
      using copy_streams_trace by blast
    then have "snd (copy_streams l this ?h1 (SftpFile (Some f)) w) = h @ ([SftpCreate c remote] @ ev)"
      and "\<forall>x\<in>set ([SftpCreate c remote] @ ev). x \<noteq> StreamClose (CallerStream n)"
      by auto
    from close_remote_trace [OF this] show ?thesis using Some Inr
      by (simp add: upload_remote_def)
  next
    case (Inl err)
    obtain qv where qv: "snd (quit l this ?h1) = ?h1 @ qv"
      and cl: "\<forall>x\<in>set qv. \<exists>n. x = SftpClose n \<or> x = SshClose n"
      using quit_trace by blast
    have qn: "\<forall>x\<in>set ([SftpCreate c remote] @ qv). x \<noteq> StreamClose (CallerStream n)"
      using cl by fastforce
    obtain ev where cp: "snd (copy_streams l this (?h1 @ qv) (SftpFile None) w) = (?h1 @ qv) @ ev"
      and cn: "\<forall>x\<in>set ev. \<forall>s. x \<noteq> StreamClose s"
      using copy_streams_trace by blast
    have "snd (copy_streams l this (?h1 @ qv) (SftpFile None) w) = h @ ([SftpCreate c remote] @ qv @ ev)"
      and "\<forall>x\<in>set ([SftpCreate c remote] @ qv @ ev). x \<noteq> StreamClose (CallerStream n)"
      using cp cn qn by auto
    from close_remote_trace [OF this]
    obtain ev' where cs: "snd (close_stream (SftpFile None) (copy_streams l this (?h1 @ qv) (SftpFile None) w)) = h @ ev'"
      and csn: "\<forall>x\<in>set ev'. x \<noteq> StreamClose (CallerStream n)" by blast
    show ?thesis
    proof (cases "quit l this ?h1")
      case (Pair out h')
      then have h': "h' = ?h1 @ qv" using qv by simp
      show ?thesis
      proof (cases out)
        case (Panic q)
        then show ?thesis using Some Inl Pair h' qn
          by (auto simp: upload_remote_def)
      next
        case (Return eo)
        show ?thesis
        proof (cases eo)
          case None
          then show ?thesis using Some Inl Pair Return h' cs csn
            by (auto simp: upload_remote_def)
        next
          case (Some e)
          then show ?thesis using \<open>sftpClient this = Some c\<close> Inl Pair Return h' qn
            by (auto simp: upload_remote_def)
        qed
      qed
    qed
  qed
qed

text \<open>
  Claim C9. When \<open>download\<close> is given an object that implements \<open>io.WriteCloser\<close>, and
  when \<open>upload\<close> is given an object that implements \<open>io.ReadCloser\<close>, the last call the
  operation makes is the \<open>Close\<close> of that stream, and it makes it once, whatever the
  outcome: a completed transfer, a returned error or a panic.
\<close>

theorem caller_stream_closed:
  "(\<exists>ev. snd (download l this h (Object n True rc) remote) = h @ ev @ [StreamClose (CallerStream n)]
         \<and> StreamClose (CallerStream n) \<notin> set ev)
   \<and> (\<exists>ev. snd (upload l this h (Object n wc True) remote) = h @ ev @ [StreamClose (CallerStream n)]
         \<and> StreamClose (CallerStream n) \<notin> set ev)"
proof -
  obtain ev where "snd (download_remote l this h (CallerStream n) remote) = h @ ev"
    and "\<forall>x\<in>set ev. x \<noteq> StreamClose (CallerStream n)"
    using download_remote_trace by blast
  then have d: "\<exists>ev. snd (download l this h (Object n True rc) remote) = h @ ev @ [StreamClose (CallerStream n)]
         \<and> StreamClose (CallerStream n) \<notin> set ev"
    by (auto simp: download_def close_stream_def)
  obtain ev where "snd (upload_remote l this h (CallerStream n) remote) = h @ ev"
    and "\<forall>x\<in>set ev. x \<noteq> StreamClose (CallerStream n)"
    using upload_remote_trace by blast
  then have u: "\<exists>ev. snd (upload l this h (Object n wc True) remote) = h @ ev @ [StreamClose (CallerStream n)]
         \<and> StreamClose (CallerStream n) \<notin> set ev"
    by (auto simp: upload_def close_stream_def)
  from d u show ?thesis by blast
qed

text \<open>
  A failure of the last step of an operation (the listing command, the copy) is followed
  by the teardown and, when the teardown succeeds, returned. A failure of the remote open
  or create followed by a successful teardown is not returned: the operation goes on with
  the nil remote file, whose deferred \<open>Close\<close> panics.
\<close>

lemma last_step_failure_returns_error:
  "(lib_SessionOutput l h x (''ls -al '' @ p) = (bytes, Some err) \<longrightarrow>
      quit l this (h @ [SessionOutput x (''ls -al '' @ p)]) = (Return None, h') \<longrightarrow>
      list_output l this h (Some x) p = (Return (bytes, Some err), h'))
   \<and> (lib_IoCopy l h w r = Copied n (Some err) \<longrightarrow>
      quit l this (h @ [IoCopy w r]) = (Return None, h') \<longrightarrow>
      copy_streams l this h w r = (Return (n, Some err), h'))"
  by (simp add: list_output_def copy_streams_def)

lemma close_nil_remote_file_panics:
  "fst (close_stream (SftpFile None) r) = Panic NilDereference"
  by (simp add: close_stream_def)

lemma close_keeps_panic:
  "fst r = Panic q \<Longrightarrow> s \<noteq> SftpFile None \<Longrightarrow> fst (close_stream s r) = Panic q"
  by (cases s) (auto simp: close_stream_def split: option.splits)

lemma failed_open_then_panic:
  assumes "sftpClient this = Some c"
    and "lib_SftpOpen l h c remote = Inl err"
    and "quit l this (h @ [SftpOpen c remote]) = (Return None, h')"
  shows "fst (download l this h (Object n True rc) remote) = Panic NilDereference"
proof -
  have "fst (download_remote l this h (CallerStream n) remote) = Panic NilDereference"
    using assms by (simp add: download_remote_def close_nil_remote_file_panics)
  then show ?thesis by (simp add: download_def close_keeps_panic)
qed

lemma failed_create_then_panic:
  assumes "sftpClient this = Some c"
    and "lib_SftpCreate l h c remote = Inl err"
    and "quit l this (h @ [SftpCreate c remote]) = (Return None, h')"
  shows "fst (upload l this h (Object n wc True) remote) = Panic NilDereference"
proof -
  have "fst (upload_remote l this h (CallerStream n) remote) = Panic NilDereference"
    using assms by (simp add: upload_remote_def close_nil_remote_file_panics)
  then show ?thesis by (simp add: upload_def close_keeps_panic)
qed

text \<open>
  Claim C1 at a failure of the remote open. The remote file does not exist and the
  teardown succeeds; \<open>download\<close> then goes on with the nil remote file, copies from it
  and panics. The error of the open is not returned.
\<close>

theorem download_missing_file:
  "download missing_file connected [] (Object 9 True False) ''/missing''
     = (Panic NilDereference,
        [SftpOpen 2 ''/missing'', SftpClose 2, SshClose 1,
         IoCopy (CallerStream 9) (SftpFile None), StreamClose (CallerStream 9)])"
  by (simp add: download_def download_remote_def copy_streams_def close_stream_def quit_def
        missing_file_def friendly_def connected_def)

section \<open>Properties of connect\<close>

lemma key_auth_callback:
  "key_auth F l p config h = (Inr config', h1) \<Longrightarrow> HostKeyCallback config' = HostKeyCallback config"
  by (auto simp: key_auth_def read_key_def parse_key_def split: if_splits sum.splits)

lemma key_auth_trace:
  "\<exists>ev. snd (key_auth F l p config h) = h @ ev \<and> (\<forall>x\<in>set ev. \<forall>n a c. x \<noteq> Dial n a c)"
  by (auto simp: key_auth_def read_key_def parse_key_def split: if_splits sum.splits)

lemma dial_trace:
  "\<exists>ev. snd (snd (dial l this config h)) = h @ ev \<and> (\<forall>n a c. Dial n a c \<in> set ev \<longrightarrow> c = config)"
  by (auto simp: dial_def Let_def split: sum.splits list.splits option.splits)

lemma password_auth_callback:
  "HostKeyCallback (password_auth p config) = HostKeyCallback config"
  by (simp add: password_auth_def)

lemma HasPrefix_append: "HasPrefix (pre @ rest) pre"
  by (simp add: HasPrefix_def)

lemma TrimPrefix_append: "TrimPrefix (pre @ rest) pre = rest"
  by (simp add: TrimPrefix_def HasPrefix_def)

lemma HasPrefix_iff: "HasPrefix s pre \<longleftrightarrow> (\<exists>rest. s = pre @ rest)"
proof
  assume "HasPrefix s pre"
  then have "s = pre @ drop (length pre) s"
    by (metis HasPrefix_def append_take_drop_id)
  then show "\<exists>rest. s = pre @ rest" ..
next
  assume "\<exists>rest. s = pre @ rest"
  then show "HasPrefix s pre" using HasPrefix_append by auto
qed

lemma parse_key_trace:
  "snd (parse_key l p config pemBytes h)
     = h @ [if usePassphrase p then ParsePrivateKeyWithPassphrase pemBytes (passphrase p)
            else ParsePrivateKey pemBytes]"
  by (auto simp: parse_key_def split: sum.splits)

lemma connect_parse_trace:
  assumes "useKey (params this)" and "read_key F l (params this) h = (Inr pemBytes, h1)"
  shows "\<exists>ev. snd (snd (connect F l this h))
           = h1 @ [if usePassphrase (params this)
                   then ParsePrivateKeyWithPassphrase pemBytes (passphrase (params this))
                   else ParsePrivateKey pemBytes] @ ev"
proof (cases "parse_key l (params this) (initial_config (params this)) pemBytes h1")
  case (Pair r h2)
  then have h2: "h2 = h1 @ [if usePassphrase (params this)
                   then ParsePrivateKeyWithPassphrase pemBytes (passphrase (params this))
                   else ParsePrivateKey pemBytes]"
    using parse_key_trace [of l "params this" "initial_config (params this)" pemBytes h1] by simp
  have k: "key_auth F l (params this) (initial_config (params this)) h = (r, h2)"
    using assms Pair by (simp add: key_auth_def)
  show ?thesis
  proof (cases r)
    case (Inl err)
    then show ?thesis using k h2 by (simp add: connect_def)
  next
    case (Inr cfg)
    obtain dv where "snd (snd (dial l this (password_auth (params this) cfg) h2)) = h2 @ dv"
      using dial_trace by blast
    then show ?thesis using k Inr h2 by (simp add: connect_def)
  qed
qed

text \<open>
  Claim C7. Every configuration that \<open>connect\<close> passes to \<open>ssh.Dial\<close> accepts any host
  key: its host-key callback returns nil for every host name, remote address and public
  key.
\<close>

theorem any_host_key_accepted:
  assumes "Dial network addr config \<in> set (drop (length h) (snd (snd (connect F l this h))))"
  shows "HostKeyCallback config hostname remote key = None"
proof (cases "key_auth F l (params this) (initial_config (params this)) h")
  case (Pair r h1)
  obtain ev where ev: "h1 = h @ ev" and nd: "\<forall>x\<in>set ev. \<forall>n a c. x \<noteq> Dial n a c"
    using key_auth_trace [of F l "params this" "initial_config (params this)" h] Pair by auto
  show ?thesis
  proof (cases r)
    case (Inl err)
    then have "snd (snd (connect F l this h)) = h @ ev" using Pair ev by (simp add: connect_def)
    then show ?thesis using assms nd by auto
  next
    case (Inr cfg)
    let ?cfg = "password_auth (params this) cfg"
    obtain dv where dv: "snd (snd (dial l this ?cfg h1)) = h1 @ dv"
      and dc: "\<forall>n a c. Dial n a c \<in> set dv \<longrightarrow> c = ?cfg"
      using dial_trace by blast
    have "snd (snd (connect F l this h)) = h @ ev @ dv"
      using Pair Inr ev dv by (simp add: connect_def)
    then have "Dial network addr config \<in> set ev \<union> set dv" using assms by simp
    then have "config = ?cfg" using nd dc by blast
    moreover have "HostKeyCallback cfg = HostKeyCallback (initial_config (params this))"
      using key_auth_callback Pair Inr by blast
    ultimately show ?thesis by (simp add: password_auth_callback initial_config_def)
  qed
qed

theorem any_host_key_accepted_witness:
  "Dial ''tcp'' ''10.0.0.7:22''
      \<lparr>User = ''alice'', Auth = [Password ''secret''], HostKeyCallback = (\<lambda>hostname remote key. None)\<rparr>
     \<in> set (drop (length ([]::trace)) (snd (snd (connect ''file://'' friendly (newSftp sample_params) []))))
   \<and> HostKeyCallback
       \<lparr>User = ''alice'', Auth = [Password ''secret''], HostKeyCallback = (\<lambda>hostname remote key. None)\<rparr>
       ''files.example.org'' ''10.0.0.7:22'' ''ssh-ed25519 AAAA'' = None"
proof -
  have m: "Dial ''tcp'' ''10.0.0.7:22''
      \<lparr>User = ''alice'', Auth = [Password ''secret''], HostKeyCallback = (\<lambda>hostname remote key. None)\<rparr>
     \<in> set (drop (length ([]::trace)) (snd (snd (connect ''file://'' friendly (newSftp sample_params) []))))"
    by (simp add: connect_def key_auth_def read_key_def parse_key_def dial_def password_auth_def initial_config_def
          newSftp_def sample_params_def friendly_def format_int_def)
  from any_host_key_accepted [OF m] m show ?thesis by blast
qed

text \<open>
  Claim C2. When \<open>connect\<close> returns a nil error, both handles are set: the transport
  handle is the one a successful \<open>ssh.Dial\<close> returned, the file-transfer handle is the one
  a successful \<open>sftp.NewClient\<close> returned on that transport, and these two calls are the
  last ones made, so that nothing has been closed since.
\<close>

theorem connect_success_sets_both_handles:
  assumes "fst (connect F l this h) = Return None"
  shows "\<exists>t c h1 addr config.
           sshClient (fst (snd (connect F l this h))) = Some t
         \<and> sftpClient (fst (snd (connect F l this h))) = Some c
         \<and> snd (snd (connect F l this h)) = h1 @ [Dial ''tcp'' addr config, NewClient t]
         \<and> lib_Dial l h1 ''tcp'' addr config = Inr t
         \<and> lib_NewClient l (h1 @ [Dial ''tcp'' addr config]) t = Inr c"
  using assms
  by (auto simp: connect_def dial_def Let_def split: prod.splits sum.splits list.splits option.splits)

theorem connect_success_sets_both_handles_witness:
  "fst (connect ''file://'' friendly (newSftp sample_params) []) = Return None
   \<and> sshClient (fst (snd (connect ''file://'' friendly (newSftp sample_params) []))) = Some 1
   \<and> sftpClient (fst (snd (connect ''file://'' friendly (newSftp sample_params) []))) = Some 2"
proof -
  have m: "fst (connect ''file://'' friendly (newSftp sample_params) []) = Return None"
    by (simp add: connect_def key_auth_def read_key_def parse_key_def dial_def password_auth_def initial_config_def
          newSftp_def sample_params_def friendly_def format_int_def)
  from connect_success_sets_both_handles [OF m] m show ?thesis
    by (auto simp: friendly_def)
qed

text \<open>
  Claim C5, as stated, fails: on a new facade, \<open>connect\<close> to a host whose name does not
  resolve returns the error, and the \<open>quit\<close> that follows panics on the nil file-transfer
  handle.
\<close>

theorem quit_after_failed_connect_counterexample:
  "fst (connect ''file://'' unknown_host (newSftp sample_params) []) = Return (Some (Error ''no such host''))
   \<and> fst (quit unknown_host (fst (snd (connect ''file://'' unknown_host (newSftp sample_params) [])))
             (snd (snd (connect ''file://'' unknown_host (newSftp sample_params) []))))
       = Panic NilDereference"
  by (simp add: connect_def key_auth_def read_key_def parse_key_def dial_def password_auth_def initial_config_def
        newSftp_def sample_params_def friendly_def unknown_host_def quit_def)

text \<open>
  Claim C5, amended. When \<open>connect\<close> returns an error on a facade whose file-transfer
  handle was nil before the call (a new facade), that handle is nil after it, and a
  subsequent \<open>quit\<close> on the same facade panics with a nil dereference before closing
  anything, whatever the libraries answer.
\<close>

theorem failed_connect_leaves_nil_client:
  assumes "sftpClient this = None" and "fst (connect F l this h) = Return (Some e)"
  shows "sftpClient (fst (snd (connect F l this h))) = None
       \<and> quit l' (fst (snd (connect F l this h))) h' = (Panic NilDereference, h')"
proof -
  have "sftpClient (fst (snd (connect F l this h))) = None"
    using assms
    by (auto simp: connect_def dial_def Let_def split: prod.splits sum.splits list.splits option.splits)
  then show ?thesis by (simp add: quit_def)
qed

theorem failed_connect_leaves_nil_client_witness:
  "sftpClient (fst (snd (connect ''file://'' unknown_host (newSftp sample_params) []))) = None
   \<and> quit friendly (fst (snd (connect ''file://'' unknown_host (newSftp sample_params) []))) []
       = (Panic NilDereference, [])"
proof -
  have a: "sftpClient (newSftp sample_params) = None" by (simp add: newSftp_def)
  have b: "fst (connect ''file://'' unknown_host (newSftp sample_params) []) = Return (Some (Error ''no such host''))"
    by (simp add: connect_def key_auth_def read_key_def parse_key_def dial_def password_auth_def initial_config_def
        newSftp_def sample_params_def friendly_def unknown_host_def)
  from failed_connect_leaves_nil_client [OF a b] show ?thesis .
qed

text \<open>
  Claim C8. With key authentication enabled: when the configured key is \<open>FILEPROTOCOL\<close>
  followed by a path, \<open>connect\<close> first reads the file at that path; a failed read makes
  \<open>connect\<close> return at once an error whose message names the path, and a successful read
  gives the bytes that are parsed next. When the configured key does not begin with
  \<open>FILEPROTOCOL\<close>, the first call parses the configured string itself. The parse is the
  one with the passphrase exactly when \<open>usePassphrase\<close> is set.
\<close>

theorem key_material_resolution:
  assumes "useKey (params this)"
  shows "(\<forall>path. privateKey (params this) = F @ path \<longrightarrow>
            (\<forall>msg. lib_ReadFile l h path = Inl (Error msg) \<longrightarrow>
               connect F l this h =
                 (Return (Some (Error (''Private Key File '' @ [CHR 0x22] @ path @ [CHR 0x22]
                                        @ '': '' @ msg))),
                  this, h @ [ReadFile path]))
          \<and> (\<forall>bytes. lib_ReadFile l h path = Inr bytes \<longrightarrow>
               take 2 (drop (length h) (snd (snd (connect F l this h))))
                 = [ReadFile path,
                    if usePassphrase (params this)
                    then ParsePrivateKeyWithPassphrase bytes (passphrase (params this))
                    else ParsePrivateKey bytes]))
       \<and> (\<not> HasPrefix (privateKey (params this)) F \<longrightarrow>
            take 1 (drop (length h) (snd (snd (connect F l this h))))
              = [if usePassphrase (params this)
                 then ParsePrivateKeyWithPassphrase (privateKey (params this)) (passphrase (params this))
                 else ParsePrivateKey (privateKey (params this))])"
proof (intro conjI allI impI)
  fix path msg
  assume "privateKey (params this) = F @ path" and "lib_ReadFile l h path = Inl (Error msg)"
  then show "connect F l this h =
                 (Return (Some (Error (''Private Key File '' @ [CHR 0x22] @ path @ [CHR 0x22]
                                        @ '': '' @ msg))),
                  this, h @ [ReadFile path])"
    using assms
    by (simp add: connect_def key_auth_def read_key_def HasPrefix_append TrimPrefix_append
          key_file_error_def)
next
  fix path bytes
  assume p: "privateKey (params this) = F @ path" and rd: "lib_ReadFile l h path = Inr bytes"
  have "read_key F l (params this) h = (Inr bytes, h @ [ReadFile path])"
    using p rd by (simp add: read_key_def HasPrefix_append TrimPrefix_append)
  from connect_parse_trace [OF assms this]
  obtain ev where "snd (snd (connect F l this h))
        = (h @ [ReadFile path]) @ [if usePassphrase (params this)
                    then ParsePrivateKeyWithPassphrase bytes (passphrase (params this))
                    else ParsePrivateKey bytes] @ ev"
    by blast
  then show "take 2 (drop (length h) (snd (snd (connect F l this h))))
                 = [ReadFile path,
                    if usePassphrase (params this)
                    then ParsePrivateKeyWithPassphrase bytes (passphrase (params this))
                    else ParsePrivateKey bytes]"
    by simp
next
  assume np: "\<not> HasPrefix (privateKey (params this)) F"
  have "read_key F l (params this) h = (Inr (privateKey (params this)), h)"
    using np by (simp add: read_key_def)
  from connect_parse_trace [OF assms this]
  obtain ev where "snd (snd (connect F l this h))
        = h @ [if usePassphrase (params this)
                 then ParsePrivateKeyWithPassphrase (privateKey (params this)) (passphrase (params this))
                 else ParsePrivateKey (privateKey (params this))] @ ev"
    by blast
  then show "take 1 (drop (length h) (snd (snd (connect F l this h))))
              = [if usePassphrase (params this)
                 then ParsePrivateKeyWithPassphrase (privateKey (params this)) (passphrase (params this))
                 else ParsePrivateKey (privateKey (params this))]"
    by simp
qed

theorem key_material_resolution_witness:
  "connect ''file://''
      (friendly\<lparr>lib_ReadFile := (\<lambda>h path. Inl (Error ''permission denied''))\<rparr>)
      (newSftp (sample_params\<lparr>useKey := True, privateKey := ''file:///home/alice/id''\<rparr>)) []
     = (Return (Some (Error (''Private Key File '' @ [CHR 0x22] @ ''/home/alice/id'' @ [CHR 0x22]
                              @ '': '' @ ''permission denied''))),
        newSftp (sample_params\<lparr>useKey := True, privateKey := ''file:///home/alice/id''\<rparr>),
        [ReadFile ''/home/alice/id''])
   \<and> take 2 (snd (snd (connect ''file://'' friendly
        (newSftp (sample_params\<lparr>useKey := True, privateKey := ''file:///home/alice/id'',
                                usePassphrase := True, passphrase := ''open''\<rparr>)) [])))
     = [ReadFile ''/home/alice/id'', ParsePrivateKeyWithPassphrase ''PEM'' ''open'']
   \<and> take 1 (snd (snd (connect ''file://'' friendly
        (newSftp (sample_params\<lparr>useKey := True, privateKey := ''-----BEGIN KEY''\<rparr>)) [])))
     = [ParsePrivateKey ''-----BEGIN KEY'']"
  using key_material_resolution
          [of "newSftp (sample_params\<lparr>useKey := True, privateKey := ''file:///home/alice/id''\<rparr>)"
              "''file://''" "friendly\<lparr>lib_ReadFile := (\<lambda>h path. Inl (Error ''permission denied''))\<rparr>" "[]"]
        key_material_resolution
          [of "newSftp (sample_params\<lparr>useKey := True, privateKey := ''file:///home/alice/id'',
                                usePassphrase := True, passphrase := ''open''\<rparr>)"
              "''file://''" friendly "[]"]
        key_material_resolution
          [of "newSftp (sample_params\<lparr>useKey := True, privateKey := ''-----BEGIN KEY''\<rparr>)"
              "''file://''" friendly "[]"]
  by (simp add: newSftp_def sample_params_def friendly_def HasPrefix_def)

end
